theory Spec2Isabelle
  imports Complex_Main "HOL-Library.Word" "HOL-Library.Sublist"
begin

section \<open>JavaScript strings\<close>

text \<open>
  A JavaScript string is a sequence of UTF-16 code units; \<open>length\<close>, \<open>substring\<close>,
  \<open>slice\<close>, \<open>startsWith\<close> and \<open>trim\<close> all count and cut code units. \<open>js\<close> reads an
  ASCII literal of the source as such a sequence.
\<close>

type_synonym jsstring = "16 word list"

definition js :: "string \<Rightarrow> jsstring" where
  "js s = map of_char s"

text \<open>\<open>`${n}`\<close> for a non-negative integer \<open>n\<close>: its decimal digits.\<close>

fun decimal :: "nat \<Rightarrow> jsstring" where
  "decimal n =
     (if n < 10 then [of_nat (48 + n)] else decimal (n div 10) @ [of_nat (48 + n mod 10)])"

declare decimal.simps [simp del]

text \<open>\<open>s.startsWith(p)\<close>, \<open>s.slice(k)\<close> for an integer \<open>k \<ge> 0\<close> and \<open>s.substring(0, k)\<close>.\<close>

definition js_startsWith :: "jsstring \<Rightarrow> jsstring \<Rightarrow> bool" where
  "js_startsWith s p = (take (length p) s = p)"

definition js_slice :: "'a list \<Rightarrow> nat \<Rightarrow> 'a list" where
  "js_slice s k = drop k s"

definition js_substring0 :: "jsstring \<Rightarrow> nat \<Rightarrow> jsstring" where
  "js_substring0 s k = take k s"

text \<open>
  \<open>s.trim()\<close> removes the code units of ECMAScript's WhiteSpace and LineTerminator
  productions from both ends: TAB, LF, VT, FF, CR, SP, NBSP, the space separators of
  Unicode, LS, PS and the byte order mark.
\<close>

definition js_whitespace :: "16 word \<Rightarrow> bool" where
  "js_whitespace c = (c \<in> set [0x9, 0xA, 0xB, 0xC, 0xD, 0x20, 0xA0, 0x1680, 0x2000, 0x2001,
     0x2002, 0x2003, 0x2004, 0x2005, 0x2006, 0x2007, 0x2008, 0x2009, 0x200A, 0x2028, 0x2029,
     0x202F, 0x205F, 0x3000, 0xFEFF])"

definition js_trim :: "jsstring \<Rightarrow> jsstring" where
  "js_trim s = rev (dropWhile js_whitespace (rev (dropWhile js_whitespace s)))"

section \<open>JSON values\<close>

text \<open>
  A number as \<open>response.json()\<close> yields it: the double that \<open>JSON.parse\<close> has made of
  the literal, which is a finite double, given here by its value (so a literal that
  underflows, such as \<open>1e-330\<close>, is \<open>Finite 0\<close>, and so are both zeros), or an infinity
  (a literal beyond the range of a double). JSON text cannot denote NaN.
\<close>

datatype number = Finite rat | Infinity | NegInfinity

text \<open>\<open>n > k\<close> for a number \<open>n\<close> and an integer literal \<open>k\<close>.\<close>

fun number_gt :: "number \<Rightarrow> nat \<Rightarrow> bool" where
  "number_gt (Finite q) k = (of_nat k < q)"
| "number_gt Infinity k = True"
| "number_gt NegInfinity k = False"

text \<open>
  The values that \<open>response.json()\<close> yields and that the program builds with object
  literals. \<open>JObj\<close> lists the own properties of an object, each name once. The value
  \<open>undefined\<close> is \<open>None\<close> of \<open>json option\<close>.
\<close>

datatype json =
    JNull
  | JBool bool
  | JNum number
  | JStr jsstring
  | JArr "json list"
  | JObj "(jsstring \<times> json) list"

text \<open>The test \<open>if (v)\<close> on a value other than \<open>undefined\<close> (which is falsy).\<close>

fun truthy :: "json \<Rightarrow> bool" where
  "truthy JNull = False"
| "truthy (JBool b) = b"
| "truthy (JNum n) = (n \<noteq> Finite 0)"
| "truthy (JStr s) = (s \<noteq> [])"
| "truthy (JArr xs) = True"
| "truthy (JObj props) = True"

text \<open>
  \<open>v.name\<close> on a value that is neither \<open>null\<close> nor \<open>undefined\<close>, for the names the
  program reads (\<open>candidates\<close>, \<open>content\<close>, \<open>parts\<close>, \<open>text\<close>): no built-in prototype
  defines them, so only an object that owns the property has it.
\<close>

fun get_named :: "json \<Rightarrow> jsstring \<Rightarrow> json option" where
  "get_named (JObj props) name = map_of props name"
| "get_named v name = None"

text \<open>
  \<open>v[0]\<close> on a value that is neither \<open>null\<close> nor \<open>undefined\<close>: the first element of an
  array, the property \<open>"0"\<close> of an object, the first code unit of a string.
\<close>

fun get_first :: "json \<Rightarrow> json option" where
  "get_first (JArr xs) = (case xs of [] \<Rightarrow> None | x # rest \<Rightarrow> Some x)"
| "get_first (JObj props) = map_of props (js ''0'')"
| "get_first (JStr s) = (case s of [] \<Rightarrow> None | c # rest \<Rightarrow> Some (JStr [c]))"
| "get_first v = None"

text \<open>
  \<open>v.length\<close> on a value that is neither \<open>null\<close> nor \<open>undefined\<close>: the number of code
  units of a string, the number of elements of an array, the property \<open>"length"\<close> of an
  object that owns one, and \<open>undefined\<close> otherwise.
\<close>

fun js_length :: "json \<Rightarrow> json option" where
  "js_length (JStr s) = Some (JNum (Finite (of_nat (length s))))"
| "js_length (JArr xs) = Some (JNum (Finite (of_nat (length xs))))"
| "js_length (JObj props) = map_of props (js ''length'')"
| "js_length v = None"

text \<open>Optional chaining \<open>v?.p\<close>: \<open>undefined\<close> when \<open>v\<close> is \<open>null\<close> or \<open>undefined\<close>.\<close>

fun chain :: "json option \<Rightarrow> (json \<Rightarrow> json option) \<Rightarrow> json option" where
  "chain None access = None"
| "chain (Some JNull) access = None"
| "chain (Some v) access = access v"

section \<open>Configuration and environment\<close>

definition BOT_PREFIX :: jsstring where
  "BOT_PREFIX = js ''!droid''"

definition MODEL_NAME :: jsstring where
  "MODEL_NAME = js ''gemini-2.5-flash-preview-05-20''"

definition SYSTEM_PROMPT :: jsstring where
  \<open>SYSTEM_PROMPT = js ''You are not Gemini anymore. You are a robot. You were created by kLei00 using the gemini API. Append the words "Beep Boop" or "Roger Roger" at the end of every sentence.''\<close>

definition MAX_HISTORY_TURNS :: nat where
  "MAX_HISTORY_TURNS = 5"

definition MAX_RETRIES :: nat where
  "MAX_RETRIES = 3"

text \<open>
  What \<open>fetch\<close> is called with, and what it resolves to. \<open>text_body\<close> and \<open>json_body\<close>
  are the outcomes of \<open>response.text()\<close> and \<open>response.json()\<close>: \<open>Inl\<close> carries the
  message of the exception when the promise rejects. \<open>body\<close> is the payload that
  \<open>JSON.stringify\<close> serialises.
\<close>

record request =
  url :: jsstring
  http_method :: jsstring
  headers :: "(jsstring \<times> jsstring) list"
  body :: json

record response =
  status :: nat
  text_body :: "jsstring + jsstring"
  json_body :: "jsstring + json"

text \<open>\<open>response.ok\<close> is true for the statuses 200 to 299.\<close>

definition ok :: "response \<Rightarrow> bool" where
  "ok r = (200 \<le> status r \<and> status r \<le> 299)"

text \<open>
  Everything the program takes from outside: the credential read from the process
  environment (\<open>None\<close> when the variable is unset); the transport (\<open>fetch E req n\<close> is the
  outcome of the call of \<open>fetch\<close> in attempt \<open>n\<close> of one completion, \<open>Inl\<close> carrying the
  message of the exception when it rejects); \<open>random E n\<close>, the result of the call of
  \<open>Math.random()\<close> in attempt \<open>n\<close>; the message of the TypeError that the engine raises
  when a property of \<open>null\<close> is read; whether the gateway calls \<open>sendTyping\<close> and
  \<open>reply\<close> reject; and \<open>coerced_exceeds E v\<close>, the outcome of \<open>v > 2000\<close> for a \<open>v\<close> that
  is a string, an array or an object, which the engine first converts to a number
  (\<open>True\<close> also when that conversion throws).
\<close>

record env =
  GEMINI_API_KEY :: "jsstring option"
  fetch :: "request \<Rightarrow> nat \<Rightarrow> jsstring + response"
  random :: "nat \<Rightarrow> real"
  null_property_message :: jsstring
  sendTyping_fails :: bool
  reply_fails :: "json \<Rightarrow> bool"
  coerced_exceeds :: "json \<Rightarrow> bool"

text \<open>
  The observable actions, in the order they happen. \<open>Wait d\<close> is the suspension
  \<open>setTimeout(resolve, d)\<close>, for \<open>d\<close> milliseconds. What is written to the console is not
  among the actions.
\<close>

datatype effect =
    Fetch request
  | Wait real
  | SendTyping
  | Reply json

section \<open>getResponse\<close>

text \<open>The object literal \<open>{ role: r, parts: [{ text: t }] }\<close>.\<close>

definition content_of :: "jsstring \<Rightarrow> json \<Rightarrow> json" where
  "content_of r t = JObj [(js ''role'', JStr r), (js ''parts'', JArr [JObj [(js ''text'', t)]])]"

definition apiURL :: "jsstring \<Rightarrow> jsstring" where
  "apiURL key = js ''https://generativelanguage.googleapis.com/v1beta/models/'' @ MODEL_NAME
     @ js '':generateContent?key='' @ key"

definition payload :: "jsstring \<Rightarrow> json list \<Rightarrow> json" where
  "payload userMessage history =
     JObj [(js ''contents'', JArr (history @ [content_of (js ''user'') (JStr userMessage)])),
           (js ''systemInstruction'', JObj [(js ''parts'', JArr [JObj [(js ''text'', JStr SYSTEM_PROMPT)]])])]"

definition api_request :: "jsstring \<Rightarrow> jsstring \<Rightarrow> json list \<Rightarrow> request" where
  "api_request key userMessage history =
     \<lparr>url = apiURL key, http_method = js ''POST'',
      headers = [(js ''Content'', js ''application/json'')],
      body = payload userMessage history\<rparr>"

text \<open>
  \<open>result.candidates?.[0]?.content?.parts?.[0]?.text\<close> on a \<open>result\<close> that is not
  \<open>null\<close>, and the whole expression: its first access is not optional, so that on
  \<open>null\<close> it throws.
\<close>

definition text_path :: "json \<Rightarrow> json option" where
  "text_path result =
     chain (chain (chain (chain (chain (get_named result (js ''candidates''))
       get_first)
       (\<lambda>v. get_named v (js ''content'')))
       (\<lambda>v. get_named v (js ''parts'')))
       get_first)
       (\<lambda>v. get_named v (js ''text''))"

definition candidate_text :: "env \<Rightarrow> json \<Rightarrow> jsstring + json option" where
  "candidate_text E result =
     (if result = JNull then Inl (null_property_message E) else Inr (text_path result))"

text \<open>
  The body of the \<open>try\<close> block of one attempt: \<open>Inl m\<close> when it throws an error with
  message \<open>m\<close>, otherwise how it leaves the block.
\<close>

datatype completion = Continue | Return json

definition request_failed :: "nat \<Rightarrow> jsstring \<Rightarrow> jsstring" where
  "request_failed st errorBody =
     js ''API Request failed with status '' @ decimal st @ js '' : '' @ errorBody"

definition try_block :: "env \<Rightarrow> request \<Rightarrow> nat \<Rightarrow> jsstring + completion" where
  "try_block E req attempt =
     (case fetch E req attempt of
        Inl m \<Rightarrow> Inl m
      | Inr response \<Rightarrow>
          if \<not> ok response then
            (case text_body response of
               Inl m \<Rightarrow> Inl m
             | Inr errorBody \<Rightarrow>
                 if status response = 429 \<and> attempt < MAX_RETRIES - 1 then Inr Continue
                 else Inl (request_failed (status response) errorBody))
          else
            (case json_body response of
               Inl m \<Rightarrow> Inl m
             | Inr result \<Rightarrow>
                 (case candidate_text E result of
                    Inl m \<Rightarrow> Inl m
                  | Inr None \<Rightarrow> Inr (Return (JStr (js ''No comment.'')))
                  | Inr (Some text) \<Rightarrow>
                      if truthy text then Inr (Return text)
                      else Inr (Return (JStr (js ''No comment.''))))))"

text \<open>
  \<open>Math.pow(2, attempt) * 1000 + (Math.random() * 1000)\<close>, in milliseconds, for the
  result \<open>r\<close> of \<open>Math.random()\<close>; the arithmetic of doubles is taken as that of the
  reals.
\<close>

definition delay :: "nat \<Rightarrow> real \<Rightarrow> real" where
  "delay attempt r = 2 ^ attempt * 1000 + r * 1000"

text \<open>The \<open>catch\<close> block: what is returned for an error with message \<open>m\<close>.\<close>

definition catch_block :: "jsstring \<Rightarrow> json" where
  "catch_block m = JStr (js ''Error: '' @ js_substring0 m 80 @ js '', Ceasing.'')"

text \<open>
  The loop \<open>for (attempt = 0; attempt < MAX_RETRIES; attempt++)\<close>, from a given value of
  \<open>attempt\<close>: the value returned and the actions taken. Every pass calls \<open>fetch\<close> once,
  as the first thing it does; a pass that continues has drawn its delay and waited.
\<close>

function retry_loop :: "env \<Rightarrow> request \<Rightarrow> nat \<Rightarrow> json \<times> effect list" where
  "retry_loop E req attempt =
     (if attempt < MAX_RETRIES then
        (case try_block E req attempt of
           Inl m \<Rightarrow> (catch_block m, [Fetch req])
         | Inr Continue \<Rightarrow>
             (case retry_loop E req (attempt + 1) of
                (v, fx) \<Rightarrow> (v, Fetch req # Wait (delay attempt (random E attempt)) # fx))
         | Inr (Return v) \<Rightarrow> (v, [Fetch req]))
      else (JStr (js ''All retries failed.''), []))"
  by pat_completeness auto
termination
  by (relation "measure (\<lambda>(E, req, attempt). MAX_RETRIES - attempt)") auto

declare retry_loop.simps [simp del]

definition getResponse :: "env \<Rightarrow> jsstring \<Rightarrow> json list \<Rightarrow> json \<times> effect list" where
  "getResponse E userMessage history =
     (case GEMINI_API_KEY E of
        None \<Rightarrow> (JStr (js ''ERROR: API key missing''), [])
      | Some key \<Rightarrow>
          if key = [] then (JStr (js ''ERROR: API key missing''), [])
          else retry_loop E (api_request key userMessage history) 0)"

section \<open>The messageCreate handler\<close>

record message =
  author_bot :: bool
  content :: jsstring
  channelId :: jsstring

text \<open>
  \<open>conversationHistory\<close>, a \<open>Map\<close> from channel ids to arrays of contents, and the read
  \<open>conversationHistory.get(channelID) || []\<close>.
\<close>

type_synonym store = "jsstring \<rightharpoonup> json list"

definition history_get :: "store \<Rightarrow> jsstring \<Rightarrow> json list" where
  "history_get conversationHistory channelID =
     (case conversationHistory channelID of None \<Rightarrow> [] | Some h \<Rightarrow> h)"

definition usage_reply :: jsstring where
  "usage_reply = js ''No message detected. Use `'' @ BOT_PREFIX @ js '' [message]`.''"

definition runtime_error_reply :: jsstring where
  "runtime_error_reply = js ''Runtime error occured beep boop.''"

text \<open>
  The new value of \<open>updatedHistory\<close>: the two new contents appended, then cut to the
  last \<open>maxMessages\<close> entries when there are more.
\<close>

definition updatedHistory :: "json list \<Rightarrow> jsstring \<Rightarrow> json \<Rightarrow> json list" where
  "updatedHistory currentHistory userPrompt responseText =
     (let newUserContent = content_of (js ''user'') (JStr userPrompt);
          newModelContent = content_of (js ''model'') responseText;
          appended = currentHistory @ [newUserContent, newModelContent];
          maxMessages = MAX_HISTORY_TURNS * 2
      in if length appended > maxMessages
         then js_slice appended (length appended - maxMessages)
         else appended)"

text \<open>The string handed to \<open>message.reply\<close> for a response text.\<close>

definition outbound :: "jsstring \<Rightarrow> jsstring" where
  "outbound responseText =
     (if length responseText > 2000
      then js_substring0 responseText 1980 @ js '' yada yada''
      else responseText)"

text \<open>
  \<open>message.reply(v)\<close> inside the \<open>try\<close> block, and the reply of the \<open>catch\<close> block when
  it rejects.
\<close>

definition reply_or_catch :: "env \<Rightarrow> json \<Rightarrow> effect list" where
  "reply_or_catch E v =
     (if reply_fails E v then [Reply v, Reply (JStr runtime_error_reply)] else [Reply v])"

text \<open>
  The test \<open>x > 2000\<close> for what \<open>responseText.length\<close> can be: \<open>undefined\<close>, \<open>null\<close> and
  booleans become NaN, 0 and 0 or 1; a number is compared as it is; anything else is
  converted by the engine.
\<close>

definition exceeds_limit :: "env \<Rightarrow> json option \<Rightarrow> bool" where
  "exceeds_limit E x =
     (case x of
        None \<Rightarrow> False
      | Some JNull \<Rightarrow> False
      | Some (JBool b) \<Rightarrow> False
      | Some (JNum n) \<Rightarrow> number_gt n 2000
      | Some v \<Rightarrow> coerced_exceeds E v)"

text \<open>
  The end of the \<open>try\<close> block. A string is replied as \<open>outbound\<close> makes it. Any other
  value has no method \<open>substring\<close>: when its \<open>length\<close> exceeds the limit the call of
  \<open>substring\<close> throws, and so does reading \<open>length\<close> of \<open>null\<close>; the \<open>catch\<close> block
  then replies. Otherwise the value itself is replied.
\<close>

definition deliver :: "env \<Rightarrow> json \<Rightarrow> effect list" where
  "deliver E responseText =
     (case responseText of
        JStr s \<Rightarrow> reply_or_catch E (JStr (outbound s))
      | JNull \<Rightarrow> [Reply (JStr runtime_error_reply)]
      | v \<Rightarrow>
          if exceeds_limit E (js_length v) then [Reply (JStr runtime_error_reply)]
          else reply_or_catch E v)"

text \<open>The handler from the point where \<open>userPrompt\<close> is known.\<close>

definition handle_prompt :: "env \<Rightarrow> store \<Rightarrow> jsstring \<Rightarrow> jsstring \<Rightarrow> store \<times> effect list" where
  "handle_prompt E conversationHistory channelID userPrompt =
     (let currentHistory = history_get conversationHistory channelID
      in if userPrompt = [] then (conversationHistory, [Reply (JStr usage_reply)])
         else if sendTyping_fails E
         then (conversationHistory, [SendTyping, Reply (JStr runtime_error_reply)])
         else (case getResponse E userPrompt currentHistory of
                 (responseText, fx) \<Rightarrow>
                   (conversationHistory
                      (channelID \<mapsto> updatedHistory currentHistory userPrompt responseText),
                    SendTyping # fx @ deliver E responseText)))"

definition messageCreate :: "env \<Rightarrow> store \<Rightarrow> message \<Rightarrow> store \<times> effect list" where
  "messageCreate E conversationHistory message =
     (if author_bot message then (conversationHistory, [])
      else if js_startsWith (content message) BOT_PREFIX
      then handle_prompt E conversationHistory (channelId message)
             (js_trim (js_slice (content message) (length BOT_PREFIX)))
      else (conversationHistory, []))"

text \<open>
  Messages handled one after the other, each with the environment it meets, from a given
  content of the map.
\<close>

fun dispatch :: "store \<Rightarrow> (env \<times> message) list \<Rightarrow> store" where
  "dispatch conversationHistory [] = conversationHistory"
| "dispatch conversationHistory ((E, message) # rest) =
     dispatch (fst (messageCreate E conversationHistory message)) rest"

section \<open>Transports and messages used below\<close>

text \<open>
  Attempt \<open>i\<close> is rate limited: \<open>fetch\<close> resolves to a response of status 429 whose
  body can be read. \<open>retries E req n\<close> are the actions of \<open>n\<close> rate-limited attempts,
  each followed by its wait.
\<close>

definition rate_limited :: "env \<Rightarrow> request \<Rightarrow> nat \<Rightarrow> bool" where
  "rate_limited E req i =
     (case fetch E req i of
        Inl m \<Rightarrow> False
      | Inr r \<Rightarrow> status r = 429 \<and> (case text_body r of Inl m \<Rightarrow> False | Inr b \<Rightarrow> True))"

definition retries :: "env \<Rightarrow> request \<Rightarrow> nat \<Rightarrow> effect list" where
  "retries E req n = concat (map (\<lambda>i. [Fetch req, Wait (delay i (random E i))]) [0..<n])"

text \<open>
  An environment with a credential, a working gateway and a given transport stub; every
  call of \<open>Math.random()\<close> yields one half, and the TypeError has the message that V8
  gives it.
\<close>

definition stub_env :: "(nat \<Rightarrow> jsstring + response) \<Rightarrow> env" where
  "stub_env transport =
     \<lparr>GEMINI_API_KEY = Some (js ''secret''), fetch = (\<lambda>req. transport),
      random = (\<lambda>n. 1 / 2),
      null_property_message = js ''Cannot read properties of null (reading 'candidates')'',
      sendTyping_fails = False, reply_fails = (\<lambda>v. False),
      coerced_exceeds = (\<lambda>v. False)\<rparr>"

definition stub_request :: request where
  "stub_request = api_request (js ''secret'') (js ''hello'') []"

definition too_many_requests :: response where
  "too_many_requests =
     \<lparr>status = 429, text_body = Inr (js ''quota exceeded''),
      json_body = Inl (js ''Unexpected token q in JSON at position 0'')\<rparr>"

definition server_error :: response where
  "server_error =
     \<lparr>status = 500, text_body = Inr (js ''internal''),
      json_body = Inl (js ''Unexpected token i in JSON at position 0'')\<rparr>"

text \<open>The response body that the service documents, around a text \<open>t\<close>.\<close>

definition candidates_body :: "json \<Rightarrow> json" where
  "candidates_body t =
     JObj [(js ''candidates'',
            JArr [JObj [(js ''content'', JObj [(js ''parts'', JArr [JObj [(js ''text'', t)]])])]])]"

definition roger :: response where
  \<open>roger =
     \<lparr>status = 200,
      text_body = Inr (js ''{"candidates":[{"content":{"parts":[{"text":"Roger Roger"}]}}]}''),
      json_body = Inr (candidates_body (JStr (js ''Roger Roger'')))\<rparr>\<close>

definition empty_text :: response where
  \<open>empty_text =
     \<lparr>status = 200,
      text_body = Inr (js ''{"candidates":[{"content":{"parts":[{"text":""}]}}]}''),
      json_body = Inr (candidates_body (JStr []))\<rparr>\<close>

definition no_candidates :: response where
  \<open>no_candidates =
     \<lparr>status = 200, text_body = Inr (js ''{"candidates":[]}''),
      json_body = Inr (JObj [(js ''candidates'', JArr [])])\<rparr>\<close>

definition null_body :: response where
  "null_body = \<lparr>status = 200, text_body = Inr (js ''null''), json_body = Inr JNull\<rparr>"

definition always_429 :: env where
  "always_429 = stub_env (\<lambda>n. Inr too_many_requests)"

definition twice_429_then_roger :: env where
  "twice_429_then_roger = stub_env (\<lambda>n. if n < 2 then Inr too_many_requests else Inr roger)"

definition once_429_then_500 :: env where
  "once_429_then_500 = stub_env (\<lambda>n. if n < 1 then Inr too_many_requests else Inr server_error)"

definition once_429_then_down :: env where
  "once_429_then_down =
     stub_env (\<lambda>n. if n < 1 then Inr too_many_requests else Inl (js ''fetch failed''))"

definition once_429_then_no_candidates :: env where
  "once_429_then_no_candidates =
     stub_env (\<lambda>n. if n < 1 then Inr too_many_requests else Inr no_candidates)"

definition returns_empty_text :: env where
  "returns_empty_text = stub_env (\<lambda>n. Inr empty_text)"

definition returns_null :: env where
  "returns_null = stub_env (\<lambda>n. Inr null_body)"

definition no_credential :: env where
  "no_credential = (stub_env (\<lambda>n. Inr roger))\<lparr>GEMINI_API_KEY := None\<rparr>"

definition from_user :: "string \<Rightarrow> message" where
  "from_user raw = \<lparr>author_bot = False, content = js raw, channelId = js ''42''\<rparr>"

definition returns_roger :: env where
  "returns_roger = stub_env (\<lambda>n. Inr roger)"

text \<open>
  Six prompts in one channel while the credential is missing, and the two contents that
  each of them adds to the history.
\<close>

definition exchange :: "string \<Rightarrow> json list" where
  "exchange prompt =
     [content_of (js ''user'') (JStr (js prompt)),
      content_of (js ''model'') (JStr (js ''ERROR: API key missing''))]"

definition six_prompts :: "(env \<times> message) list" where
  "six_prompts =
     map (\<lambda>raw. (no_credential, from_user raw))
       [''!droid 1'', ''!droid 2'', ''!droid 3'', ''!droid 4'', ''!droid 5'', ''!droid 6'']"

section \<open>Facts about strings\<close>

lemma length_js [simp]: "length (js s) = length s"
  by (simp add: js_def)

lemma secret_nonempty: "js ''secret'' \<noteq> []"
  by (simp add: js_def)

lemma decimal_429: "decimal 429 = js ''429''"
  by (simp add: decimal.simps js_def)

lemma decimal_500: "decimal 500 = js ''500''"
  by (simp add: decimal.simps js_def)

lemma decimal_three_digits:
  assumes "100 \<le> n" "n \<le> 999"
  shows "length (decimal n) = 3"
proof -
  have a: "\<not> n < 10" "\<not> n div 10 < 10" "n div 10 div 10 < 10" using assms by auto
  show ?thesis
    by (subst decimal.simps, simp add: a, subst decimal.simps, simp add: a, subst decimal.simps, simp add: a)
qed

lemma take_request_failed:
  assumes "100 \<le> st" "st \<le> 999"
  shows "take 80 (js ''API Request failed with status '' @ decimal st @ js '' : '' @ errorBody) =
    js ''API Request failed with status '' @ decimal st @ js '' : '' @ take 43 errorBody"
  using decimal_three_digits [OF assms] by simp

lemma startsWith_append: "js_startsWith (p @ rest) p"
  by (simp add: js_startsWith_def)

lemma slice_prefix: "js_slice (BOT_PREFIX @ rest) (length BOT_PREFIX) = rest"
  by (simp add: js_slice_def)

text \<open>
  What \<open>trim\<close> removes is whitespace at the two ends, and what it leaves neither starts
  nor ends with whitespace.
\<close>

lemma js_trim_split:
  "\<exists>before after. s = before @ js_trim s @ after
     \<and> list_all js_whitespace before \<and> list_all js_whitespace after"
proof -
  define tail where "tail = dropWhile js_whitespace s"
  have "rev (takeWhile js_whitespace (rev tail) @ dropWhile js_whitespace (rev tail)) = tail"
    by (simp only: takeWhile_dropWhile_id rev_rev_ident)
  then have "rev (dropWhile js_whitespace (rev tail)) @ rev (takeWhile js_whitespace (rev tail))
      = tail"
    by (simp only: rev_append)
  then have tail: "tail = js_trim s @ rev (takeWhile js_whitespace (rev tail))"
    unfolding js_trim_def tail_def [symmetric] by (rule sym)
  have "s = takeWhile js_whitespace s @ tail"
    by (simp add: tail_def)
  then have "s = takeWhile js_whitespace s @ js_trim s @ rev (takeWhile js_whitespace (rev tail))"
    using tail by simp
  moreover have "list_all js_whitespace (takeWhile js_whitespace s)"
    by (simp add: list_all_iff) (meson set_takeWhileD)
  moreover have "list_all js_whitespace (rev (takeWhile js_whitespace (rev tail)))"
    by (simp add: list_all_iff) (meson set_takeWhileD)
  ultimately show ?thesis by blast
qed

lemma js_trim_ends:
  assumes "js_trim s \<noteq> []"
  shows "\<not> js_whitespace (hd (js_trim s)) \<and> \<not> js_whitespace (last (js_trim s))"
proof -
  define tail where "tail = dropWhile js_whitespace s"
  define kept where "kept = dropWhile js_whitespace (rev tail)"
  have trim: "js_trim s = rev kept"
    by (simp add: js_trim_def tail_def kept_def)
  then have kept: "kept \<noteq> []" using assms by simp
  then have "\<not> js_whitespace (hd kept)"
    unfolding kept_def by (rule hd_dropWhile)
  then have last: "\<not> js_whitespace (last (js_trim s))"
    using kept by (simp add: trim last_rev)
  have "tail \<noteq> []" using kept by (auto simp: kept_def)
  then have first: "\<not> js_whitespace (hd tail)"
    unfolding tail_def by (rule hd_dropWhile)
  have "rev (takeWhile js_whitespace (rev tail) @ kept) = tail"
    unfolding kept_def by (simp only: takeWhile_dropWhile_id rev_rev_ident)
  then have "rev kept @ rev (takeWhile js_whitespace (rev tail)) = tail"
    by (simp only: rev_append)
  then have "tail = js_trim s @ rev (takeWhile js_whitespace (rev tail))"
    unfolding trim by (rule sym)
  then have "hd tail = hd (js_trim s)"
    using assms by (metis hd_append2)
  then show ?thesis using first last by simp
qed

lemma js_trim_Nil: "js_trim [] = []"
  by (simp add: js_trim_def)

lemma trim_hello: "js_trim (js ''hello'') = js ''hello''"
  by (simp add: js_trim_def js_whitespace_def js_def)

lemma hello_is_prefixed: "js ''!droidhello'' = BOT_PREFIX @ js ''hello''"
  by (simp add: BOT_PREFIX_def js_def)

lemma usage_reply_text: "usage_reply = js ''No message detected. Use `!droid [message]`.''"
  by (simp add: usage_reply_def BOT_PREFIX_def js_def)

section \<open>Facts about the text path\<close>

lemma text_path_no_candidates: "text_path (JObj [(js ''candidates'', JArr [])]) = None"
  by (simp add: text_path_def)

lemma text_path_candidates_body: "text_path (candidates_body t) = Some t"
  by (simp add: text_path_def candidates_body_def)

lemma candidates_body_not_null: "candidates_body t \<noteq> JNull"
  by (simp add: candidates_body_def)

lemma candidate_text_candidates_body:
  "candidate_text E (candidates_body t) = Inr (Some t)"
  by (simp add: candidate_text_def text_path_def candidates_body_def)

section \<open>Facts about the retry loop\<close>

lemma not_ok_429: "status r = 429 \<Longrightarrow> \<not> ok r"
  by (simp add: ok_def)

lemma ok_200: "status r = 200 \<Longrightarrow> ok r"
  by (simp add: ok_def)

lemma try_block_rate_limited:
  "rate_limited E req i \<Longrightarrow> Suc i < MAX_RETRIES \<Longrightarrow> try_block E req i = Inr Continue"
  by (auto simp: rate_limited_def try_block_def not_ok_429 split: sum.splits)

lemma retry_loop_Continue:
  assumes "attempt < MAX_RETRIES" "try_block E req attempt = Inr Continue"
  shows "retry_loop E req attempt =
    (fst (retry_loop E req (Suc attempt)),
     Fetch req # Wait (delay attempt (random E attempt)) # snd (retry_loop E req (Suc attempt)))"
  using assms by (subst retry_loop.simps) (simp add: split_beta)

lemma retry_loop_throws:
  assumes "attempt < MAX_RETRIES" "try_block E req attempt = Inl m"
  shows "retry_loop E req attempt = (catch_block m, [Fetch req])"
  using assms by (subst retry_loop.simps) simp

lemma retry_loop_Return:
  assumes "attempt < MAX_RETRIES" "try_block E req attempt = Inr (Return v)"
  shows "retry_loop E req attempt = (v, [Fetch req])"
  using assms by (subst retry_loop.simps) simp

lemma retries_Suc:
  "retries E req (Suc n) = retries E req n @ [Fetch req, Wait (delay n (random E n))]"
  by (simp add: retries_def)

lemma retries_1: "retries E req (Suc 0) = [Fetch req, Wait (delay 0 (random E 0))]"
  by (simp add: retries_def)

lemma retries_2:
  "retries E req 2 = [Fetch req, Wait (delay 0 (random E 0)), Fetch req, Wait (delay 1 (random E 1))]"
  by (simp add: retries_def upt_rec)

text \<open>
  After \<open>n\<close> rate-limited attempts the loop is at attempt \<open>n\<close>, having fetched and waited
  \<open>n\<close> times.
\<close>

lemma retry_loop_retries:
  assumes "n < MAX_RETRIES" "\<forall>i<n. rate_limited E req i"
  shows "retry_loop E req 0 =
    (fst (retry_loop E req n), retries E req n @ snd (retry_loop E req n))"
  using assms
proof (induction n)
  case 0
  then show ?case by (simp add: retries_def)
next
  case (Suc n)
  have n: "n < MAX_RETRIES" using Suc.prems(1) by simp
  have "rate_limited E req n" using Suc.prems(2) by simp
  then have "try_block E req n = Inr Continue"
    using Suc.prems(1) by (rule try_block_rate_limited)
  then have step: "retry_loop E req n =
    (fst (retry_loop E req (Suc n)), Fetch req # Wait (delay n (random E n)) # snd (retry_loop E req (Suc n)))"
    using n by (simp add: retry_loop_Continue)
  have "retry_loop E req 0 = (fst (retry_loop E req n), retries E req n @ snd (retry_loop E req n))"
    using Suc.IH n Suc.prems(2) by simp
  then show ?case by (simp add: step retries_Suc)
qed

lemma retry_loop_retries_throws:
  assumes "n < MAX_RETRIES" "\<forall>i<n. rate_limited E req i" "try_block E req n = Inl m"
  shows "retry_loop E req 0 = (catch_block m, retries E req n @ [Fetch req])"
proof -
  have "retry_loop E req n = (catch_block m, [Fetch req])"
    using assms(1,3) by (rule retry_loop_throws)
  then show ?thesis
    using retry_loop_retries [OF assms(1,2)] by simp
qed

lemma retry_loop_retries_Return:
  assumes "n < MAX_RETRIES" "\<forall>i<n. rate_limited E req i" "try_block E req n = Inr (Return v)"
  shows "retry_loop E req 0 = (v, retries E req n @ [Fetch req])"
proof -
  have "retry_loop E req n = (v, [Fetch req])"
    using assms(1,3) by (rule retry_loop_Return)
  then show ?thesis
    using retry_loop_retries [OF assms(1,2)] by simp
qed

text \<open>
  The loop never runs out: a pass continues only when another pass follows, so every
  run from an attempt below \<open>MAX_RETRIES\<close> ends inside a pass, with a call of \<open>fetch\<close> as
  its last action. The \<open>return\<close> after the loop, which comes with no action at all,
  is therefore never what \<open>retry_loop E req 0\<close> yields.
\<close>

lemma try_block_Continue:
  "try_block E req attempt = Inr Continue \<Longrightarrow> Suc attempt < MAX_RETRIES"
  by (auto simp: try_block_def split: sum.splits if_splits option.splits)

lemma retry_loop_ends_with_fetch:
  "attempt < MAX_RETRIES \<Longrightarrow>
   snd (retry_loop E req attempt) \<noteq> [] \<and> last (snd (retry_loop E req attempt)) = Fetch req"
proof (induction E req attempt rule: retry_loop.induct)
  case (1 E req attempt)
  show ?case
  proof (cases "try_block E req attempt")
    case (Inl m)
    then show ?thesis using "1.prems" by (simp add: retry_loop_throws)
  next
    case (Inr c)
    show ?thesis
    proof (cases c)
      case Continue
      then have cont: "try_block E req attempt = Inr Continue" using Inr by simp
      then have next_attempt: "attempt + 1 < MAX_RETRIES"
        using try_block_Continue by fastforce
      have "snd (retry_loop E req (attempt + 1)) \<noteq> []
          \<and> last (snd (retry_loop E req (attempt + 1))) = Fetch req"
        by (rule "1.IH" [OF "1.prems" cont refl next_attempt])
      then show ?thesis
        using "1.prems" cont by (simp add: retry_loop_Continue)
    next
      case (Return v)
      then show ?thesis using "1.prems" Inr by (simp add: retry_loop_Return)
    qed
  qed
qed

lemma retry_loop_never_exhausted: "snd (retry_loop E req 0) \<noteq> []"
  using retry_loop_ends_with_fetch [of 0 E req] by (simp add: MAX_RETRIES_def)

text \<open>The delays of a list of draws add up to the fixed parts plus the drawn parts.\<close>

lemma sum_list_delay:
  "sum_list (map (delay n) rs) = real (length rs) * (2 ^ n * 1000) + sum_list rs * 1000"
  by (induction rs) (simp_all add: delay_def algebra_simps)

lemma delay_mono: "n \<le> m \<Longrightarrow> delay n r \<le> delay m r"
  by (simp add: delay_def power_increasing)

lemma delay_later:
  assumes "n < m" and "r < 1" and "0 \<le> r'"
  shows "delay n r \<le> delay m r'"
proof -
  have "(1::real) \<le> 2 ^ n" by simp
  then have "(2::real) ^ n + 1 \<le> 2 ^ Suc n" by simp
  also have "\<dots> \<le> 2 ^ m"
    using assms(1) by (intro power_increasing) simp_all
  finally have "((2::real) ^ n + 1) * 1000 \<le> 2 ^ m * 1000" by simp
  moreover have "delay n r < (2 ^ n + 1) * 1000"
    using assms(2) by (simp add: delay_def algebra_simps)
  moreover have "2 ^ m * 1000 \<le> delay m r'"
    using assms(3) by (simp add: delay_def)
  ultimately show ?thesis by linarith
qed

lemma getResponse_key:
  "GEMINI_API_KEY E = Some key \<Longrightarrow> key \<noteq> [] \<Longrightarrow>
   getResponse E userMessage history = retry_loop E (api_request key userMessage history) 0"
  by (simp add: getResponse_def)

lemma all_attempts_rate_limited:
  assumes "GEMINI_API_KEY E = Some key" and "key \<noteq> []"
    and "\<forall>i<2. rate_limited E (api_request key userMessage history) i"
    and "fetch E (api_request key userMessage history) 2 = Inr r"
    and "status r = 429" and "text_body r = Inr errorBody"
  shows "getResponse E userMessage history =
    (catch_block (request_failed 429 errorBody),
     retries E (api_request key userMessage history) 2 @ [Fetch (api_request key userMessage history)])"
proof -
  have "try_block E (api_request key userMessage history) 2 = Inl (request_failed 429 errorBody)"
    using assms by (simp add: try_block_def not_ok_429 MAX_RETRIES_def)
  then have "retry_loop E (api_request key userMessage history) 0 =
    (catch_block (request_failed 429 errorBody),
     retries E (api_request key userMessage history) 2 @ [Fetch (api_request key userMessage history)])"
    using assms(3) by (intro retry_loop_retries_throws) (simp_all add: MAX_RETRIES_def)
  then show ?thesis using assms(1,2) by (simp add: getResponse_key)
qed

section \<open>Facts about the stubs\<close>

lemma stub_env_simps [simp]:
  "GEMINI_API_KEY (stub_env f) = Some (js ''secret'')"
  "fetch (stub_env f) req n = f n"
  "random (stub_env f) n = 1 / 2"
  "null_property_message (stub_env f) =
     js ''Cannot read properties of null (reading 'candidates')''"
  "sendTyping_fails (stub_env f) = False"
  "reply_fails (stub_env f) v = False"
  "coerced_exceeds (stub_env f) v = False"
  by (simp_all add: stub_env_def)

lemma no_credential_simps [simp]:
  "GEMINI_API_KEY no_credential = None"
  "sendTyping_fails no_credential = False"
  by (simp_all add: no_credential_def)

lemma too_many_requests_simps [simp]:
  "status too_many_requests = 429"
  "text_body too_many_requests = Inr (js ''quota exceeded'')"
  by (simp_all add: too_many_requests_def)

lemma server_error_simps [simp]:
  "status server_error = 500"
  "text_body server_error = Inr (js ''internal'')"
  by (simp_all add: server_error_def)

lemma roger_simps [simp]:
  "status roger = 200"
  "json_body roger = Inr (candidates_body (JStr (js ''Roger Roger'')))"
  by (simp_all add: roger_def)

lemma empty_text_simps [simp]:
  "status empty_text = 200"
  "json_body empty_text = Inr (candidates_body (JStr []))"
  by (simp_all add: empty_text_def)

lemma no_candidates_simps [simp]:
  "status no_candidates = 200"
  "json_body no_candidates = Inr (JObj [(js ''candidates'', JArr [])])"
  by (simp_all add: no_candidates_def)

lemma null_body_simps [simp]:
  "status null_body = 200"
  "json_body null_body = Inr JNull"
  by (simp_all add: null_body_def)

lemma delay_half:
  "delay 0 (1 / 2) = 1500" "delay 1 (1 / 2) = 2500" "delay (Suc 0) (1 / 2) = 2500"
  by (simp_all add: delay_def)

lemma retries_stub_1: "retries (stub_env f) req (Suc 0) = [Fetch req, Wait 1500]"
  by (simp add: retries_1 delay_half)

lemma retries_stub_2:
  "retries (stub_env f) req 2 = [Fetch req, Wait 1500, Fetch req, Wait 2500]"
  by (simp add: retries_2 delay_half)

lemma rate_limited_too_many_requests:
  "fetch E req i = Inr too_many_requests \<Longrightarrow> rate_limited E req i"
  by (simp add: rate_limited_def)

lemma error_429:
  "catch_block (request_failed 429 (js ''quota exceeded'')) =
     JStr (js ''Error: API Request failed with status 429 : quota exceeded, Ceasing.'')"
  by (simp add: catch_block_def request_failed_def decimal_429 js_substring0_def)
     (simp add: js_def)

lemma getResponse_returns_roger:
  "getResponse returns_roger userMessage history =
     (JStr (js ''Roger Roger''), [Fetch (api_request (js ''secret'') userMessage history)])"
proof -
  have "try_block returns_roger (api_request (js ''secret'') userMessage history) 0 =
      Inr (Return (JStr (js ''Roger Roger'')))"
    by (simp add: try_block_def returns_roger_def ok_200 candidate_text_candidates_body)
       (simp add: js_def)
  then have "retry_loop returns_roger (api_request (js ''secret'') userMessage history) 0 =
      (JStr (js ''Roger Roger''), [Fetch (api_request (js ''secret'') userMessage history)])"
    by (simp add: retry_loop_Return MAX_RETRIES_def)
  then show ?thesis
    by (simp add: getResponse_key [of _ "js ''secret''"] returns_roger_def secret_nonempty)
qed

lemma from_user_simps [simp]:
  "author_bot (from_user raw) = False"
  "content (from_user raw) = js raw"
  "channelId (from_user raw) = js ''42''"
  by (simp_all add: from_user_def)

section \<open>Facts about the handler\<close>

lemma outbound_short: "length s \<le> 2000 \<Longrightarrow> outbound s = s"
  by (simp add: outbound_def)

lemma updatedHistory_eq:
  "updatedHistory h u r =
     drop (length h + 2 - 2 * MAX_HISTORY_TURNS)
       (h @ [content_of (js ''user'') (JStr u), content_of (js ''model'') r])"
proof -
  define appended where
    "appended = h @ [content_of (js ''user'') (JStr u), content_of (js ''model'') r]"
  have len: "length appended = length h + 2"
    by (simp add: appended_def)
  have "updatedHistory h u r =
      (if MAX_HISTORY_TURNS * 2 < length appended
       then drop (length appended - MAX_HISTORY_TURNS * 2) appended else appended)"
    by (simp only: updatedHistory_def Let_def js_slice_def appended_def)
  also have "\<dots> = drop (length appended - 2 * MAX_HISTORY_TURNS) appended"
    by (simp add: mult.commute)
  finally show ?thesis
    unfolding len unfolding appended_def .
qed

lemma length_updatedHistory:
  "length (updatedHistory h u r) = min (2 * MAX_HISTORY_TURNS) (length h + 2)"
  by (simp only: updatedHistory_eq length_drop length_append) simp

lemma suffix_updatedHistory:
  "suffix (updatedHistory h u r) (h @ [content_of (js ''user'') (JStr u), content_of (js ''model'') r])"
  by (simp only: updatedHistory_eq suffix_drop)

lemma messageCreate_history:
  "history_get (fst (messageCreate E st m)) k = history_get st k
   \<or> (\<exists>u r. history_get (fst (messageCreate E st m)) k = updatedHistory (history_get st k) u r)"
  by (auto simp: messageCreate_def handle_prompt_def history_get_def Let_def split_beta)

lemma messageCreate_bounded:
  assumes "\<And>k. length (history_get st k) \<le> 2 * MAX_HISTORY_TURNS"
  shows "length (history_get (fst (messageCreate E st m)) k) \<le> 2 * MAX_HISTORY_TURNS"
  using messageCreate_history [of E st m k] assms [of k]
  by (auto simp: length_updatedHistory)

lemma dispatch_bounded:
  assumes "\<And>k. length (history_get st k) \<le> 2 * MAX_HISTORY_TURNS"
  shows "length (history_get (dispatch st events) k) \<le> 2 * MAX_HISTORY_TURNS"
  using assms
proof (induction events arbitrary: st)
  case Nil
  then show ?case by simp
next
  case (Cons ev events)
  obtain E m where ev: "ev = (E, m)" by (cases ev)
  have "length (history_get (fst (messageCreate E st m)) k') \<le> 2 * MAX_HISTORY_TURNS" for k'
    using Cons.prems by (rule messageCreate_bounded)
  then show ?case
    unfolding ev dispatch.simps by (rule Cons.IH)
qed

lemma dispatch_six_prompts:
  "history_get (dispatch Map.empty six_prompts) (js ''42'') =
     exchange ''2'' @ exchange ''3'' @ exchange ''4'' @ exchange ''5'' @ exchange ''6''"
  by (simp add: six_prompts_def messageCreate_def handle_prompt_def getResponse_def
        history_get_def updatedHistory_def js_startsWith_def js_slice_def js_trim_def
        js_whitespace_def BOT_PREFIX_def MAX_HISTORY_TURNS_def exchange_def js_def Let_def)

section \<open>The claims about getResponse\<close>

text \<open>
  C5. When the credential \<open>GEMINI_API_KEY\<close> is absent, \<open>getResponse\<close> returns the
  missing-credential result at once, for every user text and history, and no action is
  taken: in particular \<open>fetch\<close> is never called.
\<close>

theorem missing_credential:
  assumes "GEMINI_API_KEY E = None"
  shows "getResponse E userMessage history = (JStr (js ''ERROR: API key missing''), [])"
  using assms by (simp add: getResponse_def)

theorem missing_credential_witness:
  "GEMINI_API_KEY no_credential = None \<and>
   getResponse no_credential (js ''hello'') [] = (JStr (js ''ERROR: API key missing''), [])"
proof -
  have h: "GEMINI_API_KEY no_credential = None"
    by (simp add: no_credential_def)
  show ?thesis using h missing_credential [OF h, of "js ''hello''" "[]"] by simp
qed

text \<open>
  C3. When the transport answers the first two attempts with status 429 and the third
  with status 200 and a body whose text is a non-empty string \<open>t\<close>, \<open>getResponse\<close>
  returns \<open>t\<close> after exactly three calls of \<open>fetch\<close> and exactly two waits, one after
  each rate-limited attempt.
\<close>

theorem success_after_two_rate_limits:
  assumes "GEMINI_API_KEY E = Some key" and "key \<noteq> []"
    and "req = api_request key userMessage history"
    and "fetch E req 0 = Inr r0" and "status r0 = 429" and "text_body r0 = Inr b0"
    and "fetch E req 1 = Inr r1" and "status r1 = 429" and "text_body r1 = Inr b1"
    and "fetch E req 2 = Inr r2" and "status r2 = 200" and "json_body r2 = Inr result"
    and "candidate_text E result = Inr (Some (JStr t))" and "t \<noteq> []"
  shows "getResponse E userMessage history =
    (JStr t, [Fetch req, Wait (delay 0 (random E 0)), Fetch req, Wait (delay 1 (random E 1)), Fetch req])"
proof -
  have limited: "\<forall>i<2. rate_limited E req i"
    using assms by (auto simp: rate_limited_def less_Suc_eq numeral_2_eq_2)
  have "ok r2" using assms by (simp add: ok_def)
  then have "try_block E req 2 = Inr (Return (JStr t))"
    using assms by (simp add: try_block_def)
  then have last: "retry_loop E req 2 = (JStr t, [Fetch req])"
    by (simp add: retry_loop_Return MAX_RETRIES_def)
  have "retry_loop E req 0 = (fst (retry_loop E req 2), retries E req 2 @ snd (retry_loop E req 2))"
    using limited by (intro retry_loop_retries) (simp_all add: MAX_RETRIES_def)
  then have "retry_loop E req 0 = (JStr t, [Fetch req, Wait (delay 0 (random E 0)), Fetch req, Wait (delay 1 (random E 1)), Fetch req])"
    by (simp add: last retries_2)
  then show ?thesis using assms by (simp add: getResponse_key)
qed

theorem success_after_two_rate_limits_witness:
  "getResponse twice_429_then_roger (js ''hello'') [] =
     (JStr (js ''Roger Roger''),
      [Fetch stub_request, Wait 1500, Fetch stub_request, Wait 2500, Fetch stub_request])"
  using success_after_two_rate_limits [of twice_429_then_roger "js ''secret''" stub_request
      "js ''hello''" "[]" too_many_requests "js ''quota exceeded''" too_many_requests
      "js ''quota exceeded''" roger "candidates_body (JStr (js ''Roger Roger''))"
      "js ''Roger Roger''"]
  by (simp add: twice_429_then_roger_def stub_request_def candidate_text_candidates_body
        secret_nonempty delay_half) (simp add: js_def)

text \<open>
  C4. For every attempt \<open>n\<close>, counted from 0, and every result \<open>r\<close> of
  \<open>Math.random()\<close>, which lies in \<open>[0, 1)\<close>, the delay is \<open>2^n\<close> seconds plus \<open>r\<close>
  seconds (in milliseconds, \<open>(2^n + r) * 1000\<close>): at least \<open>2^n\<close> seconds and less than
  \<open>2^n + 1\<close> seconds. It does not decrease as \<open>n\<close> grows: not for the same draw, not
  for any two draws once \<open>n\<close> grows strictly, and so not on average over any draws; the
  average over a sample of draws is \<open>2^n\<close> seconds plus the average draw. It is the
  delay that a pass of the loop waits for before it continues. That the draws are
  uniform is a property of the generator, outside the program.
\<close>

theorem delay_bounds:
  assumes "0 \<le> r" and "r < 1"
  shows "delay n r = (2 ^ n + r) * 1000
       \<and> 2 ^ n * 1000 \<le> delay n r
       \<and> delay n r < (2 ^ n + 1) * 1000
       \<and> (\<forall>m. n \<le> m \<longrightarrow> delay n r \<le> delay m r)
       \<and> (\<forall>m r'. n < m \<and> 0 \<le> r' \<longrightarrow> delay n r \<le> delay m r')
       \<and> (\<forall>m rs. n \<le> m \<longrightarrow>
             sum_list (map (delay n) rs) / real (length rs)
               \<le> sum_list (map (delay m) rs) / real (length rs))
       \<and> (\<forall>rs. rs \<noteq> [] \<longrightarrow>
             sum_list (map (delay n) rs) / real (length rs)
               = (2 ^ n + sum_list rs / real (length rs)) * 1000)
       \<and> (\<forall>E req. try_block E req n = Inr Continue \<longrightarrow>
             retry_loop E req n =
               (fst (retry_loop E req (Suc n)),
                Fetch req # Wait (delay n (random E n)) # snd (retry_loop E req (Suc n))))"
proof (intro conjI allI impI)
  show "delay n r = (2 ^ n + r) * 1000"
    by (simp add: delay_def algebra_simps)
  show "2 ^ n * 1000 \<le> delay n r"
    using assms(1) by (simp add: delay_def)
  show "delay n r < (2 ^ n + 1) * 1000"
    using assms(2) by (simp add: delay_def algebra_simps)
next
  fix m assume "n \<le> m"
  then show "delay n r \<le> delay m r" by (rule delay_mono)
next
  fix m and r' :: real assume "n < m \<and> 0 \<le> r'"
  then show "delay n r \<le> delay m r'"
    using assms(2) by (simp add: delay_later)
next
  fix m and rs :: "real list" assume le: "n \<le> m"
  have "sum_list (map (delay n) rs) \<le> sum_list (map (delay m) rs)"
    using le by (intro sum_list_mono) (simp add: delay_mono)
  then show "sum_list (map (delay n) rs) / real (length rs)
      \<le> sum_list (map (delay m) rs) / real (length rs)"
    by (rule divide_right_mono) simp
next
  fix rs :: "real list" assume "rs \<noteq> []"
  then have "real (length rs) \<noteq> 0" by simp
  then show "sum_list (map (delay n) rs) / real (length rs)
      = (2 ^ n + sum_list rs / real (length rs)) * 1000"
    by (simp add: sum_list_delay field_simps)
next
  fix E req assume continues: "try_block E req n = Inr Continue"
  then have "n < MAX_RETRIES"
    using try_block_Continue [of E req n] by simp
  then show "retry_loop E req n =
      (fst (retry_loop E req (Suc n)),
       Fetch req # Wait (delay n (random E n)) # snd (retry_loop E req (Suc n)))"
    using continues by (rule retry_loop_Continue)
qed

theorem delay_bounds_witness:
  "delay 0 (1 / 2) = 1500 \<and> 1000 \<le> delay 0 (1 / 2) \<and> delay 0 (1 / 2) < 2000
   \<and> delay 0 (1 / 2) \<le> delay 1 0
   \<and> try_block always_429 stub_request 0 = Inr Continue
   \<and> hd (tl (snd (retry_loop always_429 stub_request 0))) = Wait 1500"
proof -
  have continues: "try_block always_429 stub_request 0 = Inr Continue"
    by (intro try_block_rate_limited rate_limited_too_many_requests)
       (simp_all add: always_429_def MAX_RETRIES_def)
  have draw: "(0::real) \<le> 1 / 2" "(1::real) / 2 < 1" by simp_all
  have "hd (tl (snd (retry_loop always_429 stub_request 0))) =
      Wait (delay 0 (random always_429 0))"
    using delay_bounds [OF draw, of 0] continues by simp
  then show ?thesis
    using delay_bounds [OF draw, of 0] continues
    by (simp add: always_429_def delay_def)
qed

text \<open>
  C1. The claim is that a transport answering every attempt with status 429 makes
  \<open>getResponse\<close> return \<open>"All retries failed."\<close> after three attempts. Evaluated on
  such a transport, the code does make exactly three calls of \<open>fetch\<close>, with a wait after
  the first and after the second; but the third 429 fails the test
  \<open>attempt < MAX_RETRIES - 1\<close>, falls through to the \<open>throw\<close> and is answered by the
  \<open>catch\<close> block with the request-failed text. The return after the loop is never
  reached.
\<close>

theorem exhausted_retries_never_reported:
  "getResponse always_429 (js ''hello'') [] =
     (JStr (js ''Error: API Request failed with status 429 : quota exceeded, Ceasing.''),
      [Fetch stub_request, Wait 1500, Fetch stub_request, Wait 2500, Fetch stub_request])
   \<and> fst (getResponse always_429 (js ''hello'') []) \<noteq> JStr (js ''All retries failed.'')"
proof -
  have "getResponse always_429 (js ''hello'') [] =
    (catch_block (request_failed 429 (js ''quota exceeded'')),
     retries always_429 stub_request 2 @ [Fetch stub_request])"
    unfolding stub_request_def
    by (rule all_attempts_rate_limited [where r = too_many_requests])
       (simp_all add: always_429_def secret_nonempty rate_limited_too_many_requests)
  then have "getResponse always_429 (js ''hello'') [] =
     (JStr (js ''Error: API Request failed with status 429 : quota exceeded, Ceasing.''),
      [Fetch stub_request, Wait 1500, Fetch stub_request, Wait 2500, Fetch stub_request])"
    by (simp add: error_429 always_429_def retries_stub_2)
  moreover have "js ''Error: API Request failed with status 429 : quota exceeded, Ceasing.''
      \<noteq> js ''All retries failed.''"
    by (simp add: js_def)
  ultimately show ?thesis by simp
qed

text \<open>
  C7. At every attempt \<open>n\<close> (reached through \<open>n\<close> rate-limited attempts), a response
  whose status is not a success and is not 429 ends the call with no further attempt:
  the result is \<open>"Error: "\<close>, the first 80 code units of
  \<open>"API Request failed with status <status> : <body>"\<close>, and \<open>", Ceasing."\<close>; for a
  three-digit status that excerpt holds the whole status and the first 43 code units of
  the body. A rejected \<open>fetch\<close>, and any other error thrown in the attempt, ends the
  call in the same way, with at most 80 code units of its message in the result.
\<close>

theorem terminal_failures:
  assumes "GEMINI_API_KEY E = Some key" and "key \<noteq> []"
    and "req = api_request key userMessage history"
    and "n < MAX_RETRIES" and "\<forall>i<n. rate_limited E req i"
  shows "(\<forall>r errorBody.
            fetch E req n = Inr r \<and> \<not> ok r \<and> status r \<noteq> 429 \<and> text_body r = Inr errorBody \<longrightarrow>
            getResponse E userMessage history =
              (JStr (js ''Error: ''
                 @ take 80 (js ''API Request failed with status '' @ decimal (status r)
                      @ js '' : '' @ errorBody)
                 @ js '', Ceasing.''),
               retries E req n @ [Fetch req])
            \<and> (100 \<le> status r \<and> status r \<le> 999 \<longrightarrow>
                 take 80 (js ''API Request failed with status '' @ decimal (status r)
                      @ js '' : '' @ errorBody)
                 = js ''API Request failed with status '' @ decimal (status r)
                      @ js '' : '' @ take 43 errorBody))
       \<and> (\<forall>m. fetch E req n = Inl m \<longrightarrow>
            getResponse E userMessage history =
              (JStr (js ''Error: '' @ take 80 m @ js '', Ceasing.''), retries E req n @ [Fetch req])
            \<and> length (take 80 m) \<le> 80)
       \<and> (\<forall>m. try_block E req n = Inl m \<longrightarrow>
            getResponse E userMessage history =
              (JStr (js ''Error: '' @ take 80 m @ js '', Ceasing.''), retries E req n @ [Fetch req]))"
proof -
  have loop: "getResponse E userMessage history = retry_loop E req 0"
    using assms(1-3) by (simp add: getResponse_key)
  have thrown: "getResponse E userMessage history =
      (JStr (js ''Error: '' @ take 80 m @ js '', Ceasing.''), retries E req n @ [Fetch req])"
    if "try_block E req n = Inl m" for m
    using retry_loop_retries_throws [OF assms(4,5) that]
    by (simp add: loop catch_block_def js_substring0_def)
  have failed: "try_block E req n = Inl (request_failed (status r) errorBody)"
    if "fetch E req n = Inr r" "\<not> ok r" "status r \<noteq> 429" "text_body r = Inr errorBody"
    for r errorBody
    using that by (simp add: try_block_def)
  have rejected: "try_block E req n = Inl m" if "fetch E req n = Inl m" for m
    using that by (simp add: try_block_def)
  show ?thesis
  proof (intro conjI allI impI)
    fix r errorBody
    assume "fetch E req n = Inr r \<and> \<not> ok r \<and> status r \<noteq> 429 \<and> text_body r = Inr errorBody"
    then have "try_block E req n = Inl (request_failed (status r) errorBody)"
      using failed by blast
    then show "getResponse E userMessage history =
              (JStr (js ''Error: ''
                 @ take 80 (js ''API Request failed with status '' @ decimal (status r)
                      @ js '' : '' @ errorBody)
                 @ js '', Ceasing.''),
               retries E req n @ [Fetch req])"
      using thrown by (simp add: request_failed_def)
  next
    fix r errorBody
    assume "100 \<le> status r \<and> status r \<le> 999"
    then show "take 80 (js ''API Request failed with status '' @ decimal (status r)
                      @ js '' : '' @ errorBody)
                 = js ''API Request failed with status '' @ decimal (status r)
                      @ js '' : '' @ take 43 errorBody"
      by (intro take_request_failed) simp_all
  next
    fix m assume "fetch E req n = Inl m"
    then show "getResponse E userMessage history =
              (JStr (js ''Error: '' @ take 80 m @ js '', Ceasing.''), retries E req n @ [Fetch req])"
      using thrown rejected by blast
  next
    fix m show "length (take 80 m) \<le> 80" by simp
  next
    fix m assume "try_block E req n = Inl m"
    then show "getResponse E userMessage history =
              (JStr (js ''Error: '' @ take 80 m @ js '', Ceasing.''), retries E req n @ [Fetch req])"
      by (rule thrown)
  qed
qed

theorem terminal_failures_witness:
  "getResponse once_429_then_500 (js ''hello'') [] =
     (JStr (js ''Error: API Request failed with status 500 : internal, Ceasing.''),
      [Fetch stub_request, Wait 1500, Fetch stub_request])
   \<and> getResponse once_429_then_down (js ''hello'') [] =
     (JStr (js ''Error: fetch failed, Ceasing.''),
      [Fetch stub_request, Wait 1500, Fetch stub_request])"
proof -
  have one: "(1::nat) < MAX_RETRIES" by (simp add: MAX_RETRIES_def)
  have a: "\<forall>i<1. rate_limited once_429_then_500 stub_request i"
    by (simp add: once_429_then_500_def rate_limited_too_many_requests)
  have b: "\<forall>i<1. rate_limited once_429_then_down stub_request i"
    by (simp add: once_429_then_down_def rate_limited_too_many_requests)
  have "fetch once_429_then_500 stub_request 1 = Inr server_error \<and> \<not> ok server_error
      \<and> status server_error \<noteq> 429 \<and> text_body server_error = Inr (js ''internal'')"
    by (simp add: once_429_then_500_def ok_def)
  then have "getResponse once_429_then_500 (js ''hello'') [] =
     (JStr (js ''Error: ''
         @ take 80 (js ''API Request failed with status '' @ decimal (status server_error)
             @ js '' : '' @ js ''internal'')
         @ js '', Ceasing.''),
      retries once_429_then_500 stub_request 1 @ [Fetch stub_request])"
    using terminal_failures [of once_429_then_500 "js ''secret''" stub_request "js ''hello''" "[]" 1,
        OF _ secret_nonempty stub_request_def one a]
    by (simp add: once_429_then_500_def)
  then have first: "getResponse once_429_then_500 (js ''hello'') [] =
     (JStr (js ''Error: API Request failed with status 500 : internal, Ceasing.''),
      [Fetch stub_request, Wait 1500, Fetch stub_request])"
    by (simp add: once_429_then_500_def retries_stub_1 decimal_500) (simp add: js_def)
  have "fetch once_429_then_down stub_request 1 = Inl (js ''fetch failed'')"
    by (simp add: once_429_then_down_def)
  then have "getResponse once_429_then_down (js ''hello'') [] =
     (JStr (js ''Error: '' @ take 80 (js ''fetch failed'') @ js '', Ceasing.''),
      retries once_429_then_down stub_request 1 @ [Fetch stub_request])"
    using terminal_failures [of once_429_then_down "js ''secret''" stub_request "js ''hello''" "[]" 1,
        OF _ secret_nonempty stub_request_def one b]
    by (simp add: once_429_then_down_def)
  then have second: "getResponse once_429_then_down (js ''hello'') [] =
     (JStr (js ''Error: fetch failed, Ceasing.''),
      [Fetch stub_request, Wait 1500, Fetch stub_request])"
    by (simp add: once_429_then_down_def retries_stub_1) (simp add: js_def)
  show ?thesis using first second by simp
qed

text \<open>
  Where the parsed body is not \<open>null\<close>, a text that is missing at
  \<open>candidates[0].content.parts[0].text\<close>, or falsy there (the empty string, \<open>null\<close>,
  \<open>false\<close>, zero), makes \<open>getResponse\<close> return exactly \<open>"No comment."\<close>, at every attempt
  \<open>n\<close> reached through \<open>n\<close> rate-limited attempts and with no further attempt.
\<close>

lemma no_content:
  assumes "GEMINI_API_KEY E = Some key" and "key \<noteq> []"
    and "req = api_request key userMessage history"
    and "n < MAX_RETRIES" and "\<forall>i<n. rate_limited E req i"
    and "fetch E req n = Inr r" and "ok r" and "json_body r = Inr result"
    and "result \<noteq> JNull"
    and "text_path result = None \<or> (\<exists>t. text_path result = Some t \<and> \<not> truthy t)"
  shows "getResponse E userMessage history =
    (JStr (js ''No comment.''), retries E req n @ [Fetch req])"
proof -
  have "try_block E req n = Inr (Return (JStr (js ''No comment.'')))"
    using assms(6-10) by (auto simp: try_block_def candidate_text_def)
  then have "retry_loop E req 0 = (JStr (js ''No comment.''), retries E req n @ [Fetch req])"
    using assms(4,5) by (intro retry_loop_retries_Return)
  then show ?thesis using assms(1-3) by (simp add: getResponse_key)
qed

lemma no_content_examples:
  "getResponse once_429_then_no_candidates (js ''hello'') [] =
     (JStr (js ''No comment.''), [Fetch stub_request, Wait 1500, Fetch stub_request])
   \<and> getResponse returns_empty_text (js ''hello'') [] =
     (JStr (js ''No comment.''), [Fetch stub_request])"
proof -
  have one: "(1::nat) < MAX_RETRIES" and zero: "(0::nat) < MAX_RETRIES"
    by (simp_all add: MAX_RETRIES_def)
  have a: "\<forall>i<1. rate_limited once_429_then_no_candidates stub_request i"
    by (simp add: once_429_then_no_candidates_def rate_limited_too_many_requests)
  have "getResponse once_429_then_no_candidates (js ''hello'') [] =
     (JStr (js ''No comment.''),
      retries once_429_then_no_candidates stub_request 1 @ [Fetch stub_request])"
    using no_content [of once_429_then_no_candidates "js ''secret''" stub_request "js ''hello''"
        "[]" 1 no_candidates "JObj [(js ''candidates'', JArr [])]",
        OF _ secret_nonempty stub_request_def one a]
    by (simp add: once_429_then_no_candidates_def ok_200 text_path_no_candidates)
  then have first: "getResponse once_429_then_no_candidates (js ''hello'') [] =
     (JStr (js ''No comment.''), [Fetch stub_request, Wait 1500, Fetch stub_request])"
    by (simp add: once_429_then_no_candidates_def retries_stub_1)
  have "getResponse returns_empty_text (js ''hello'') [] =
     (JStr (js ''No comment.''), retries returns_empty_text stub_request 0 @ [Fetch stub_request])"
    using no_content [of returns_empty_text "js ''secret''" stub_request "js ''hello''"
        "[]" 0 empty_text "candidates_body (JStr [])",
        OF _ secret_nonempty stub_request_def zero]
    by (simp add: returns_empty_text_def ok_200 text_path_candidates_body candidates_body_not_null)
  then have second: "getResponse returns_empty_text (js ''hello'') [] =
     (JStr (js ''No comment.''), [Fetch stub_request])"
    by (simp add: retries_def)
  show ?thesis using first second by simp
qed

text \<open>
  C6. The claim is that a successful response whose body has no text at
  \<open>candidates[0].content.parts[0].text\<close> gives \<open>"No comment."\<close> and never an error. The
  code does so for every parsed body but one. When the body is the JSON value \<open>null\<close>,
  the access \<open>result.candidates\<close>, the only one of the chain that is written without
  \<open>?.\<close>, throws a TypeError, and the \<open>catch\<close> block answers with an error text built
  from its message.
\<close>

theorem null_body_is_an_error:
  "ok null_body \<and> json_body null_body = Inr JNull
   \<and> getResponse returns_null (js ''hello'') [] =
       (JStr (js ''Error: Cannot read properties of null (reading 'candidates'), Ceasing.''),
        [Fetch stub_request])
   \<and> fst (getResponse returns_null (js ''hello'') []) \<noteq> JStr (js ''No comment.'')"
proof -
  have "try_block returns_null stub_request 0 =
      Inl (js ''Cannot read properties of null (reading 'candidates')'')"
    by (simp add: try_block_def returns_null_def ok_200 candidate_text_def)
  then have "retry_loop returns_null stub_request 0 =
      (catch_block (js ''Cannot read properties of null (reading 'candidates')''),
       [Fetch stub_request])"
    by (simp add: retry_loop_throws MAX_RETRIES_def)
  then have "getResponse returns_null (js ''hello'') [] =
      (catch_block (js ''Cannot read properties of null (reading 'candidates')''),
       [Fetch stub_request])"
    by (simp add: getResponse_key [of _ "js ''secret''"] returns_null_def secret_nonempty
          stub_request_def)
  moreover have "catch_block (js ''Cannot read properties of null (reading 'candidates')'') =
      JStr (js ''Error: Cannot read properties of null (reading 'candidates'), Ceasing.'')"
    by (simp add: catch_block_def js_substring0_def) (simp add: js_def)
  moreover have
    "js ''Error: Cannot read properties of null (reading 'candidates'), Ceasing.''
      \<noteq> js ''No comment.''"
    by (simp add: js_def)
  ultimately show ?thesis by (simp add: ok_200)
qed

section \<open>The claims about the handler\<close>

text \<open>
  C9. For every message that the handler takes up (its author is not a bot) whose text
  starts with \<open>!droid\<close> and has nothing but whitespace after it, in particular the text
  \<open>!droid\<close> itself, the handler replies with the usage message and does nothing else:
  no call of \<open>getResponse\<close>, and the map of histories is unchanged.
\<close>

theorem empty_prompt_usage:
  assumes "\<not> author_bot message"
  shows "(js_startsWith (content message) BOT_PREFIX
          \<and> js_trim (js_slice (content message) (length BOT_PREFIX)) = [] \<longrightarrow>
          messageCreate E conversationHistory message =
            (conversationHistory,
             [Reply (JStr (js ''No message detected. Use `!droid [message]`.''))]))
       \<and> (content message = js ''!droid'' \<longrightarrow>
          messageCreate E conversationHistory message =
            (conversationHistory,
             [Reply (JStr (js ''No message detected. Use `!droid [message]`.''))]))"
proof (intro conjI impI)
  assume "js_startsWith (content message) BOT_PREFIX
          \<and> js_trim (js_slice (content message) (length BOT_PREFIX)) = []"
  then show "messageCreate E conversationHistory message =
            (conversationHistory,
             [Reply (JStr (js ''No message detected. Use `!droid [message]`.''))])"
    using assms by (simp add: messageCreate_def handle_prompt_def usage_reply_text)
next
  assume raw: "content message = js ''!droid''"
  have "js_startsWith (content message) BOT_PREFIX"
    by (simp add: raw js_startsWith_def BOT_PREFIX_def)
  moreover have "js_trim (js_slice (content message) (length BOT_PREFIX)) = []"
    by (simp add: raw BOT_PREFIX_def js_slice_def js_trim_Nil)
  ultimately show "messageCreate E conversationHistory message =
            (conversationHistory,
             [Reply (JStr (js ''No message detected. Use `!droid [message]`.''))])"
    using assms by (simp add: messageCreate_def handle_prompt_def usage_reply_text)
qed

theorem empty_prompt_usage_witness:
  "messageCreate returns_roger Map.empty (from_user ''!droid'') =
     (Map.empty, [Reply (JStr (js ''No message detected. Use `!droid [message]`.''))])
   \<and> messageCreate returns_roger Map.empty (from_user ''!droid  '') =
     (Map.empty, [Reply (JStr (js ''No message detected. Use `!droid [message]`.''))])"
proof -
  have nb: "\<not> author_bot (from_user raw)" for raw by simp
  have a: "content (from_user ''!droid'') = js ''!droid''" by simp
  have b: "js_startsWith (content (from_user ''!droid  '')) BOT_PREFIX
          \<and> js_trim (js_slice (content (from_user ''!droid  '')) (length BOT_PREFIX)) = []"
    by (simp add: js_startsWith_def BOT_PREFIX_def js_slice_def js_trim_def js_whitespace_def js_def)
  show ?thesis
    using empty_prompt_usage [OF nb, of "''!droid''" returns_roger Map.empty]
      empty_prompt_usage [OF nb, of "''!droid  ''" returns_roger Map.empty] a b
    by blast
qed

text \<open>
  C10. The test for the prefix asks for no separator: for every message whose author is
  not a bot and whose text is \<open>!droid\<close> followed by anything, the handler goes on with
  the trimmed remainder as the prompt. When that prompt is not empty and the typing
  indicator can be sent, it is the prompt that \<open>getResponse\<close> is called with and that
  is stored as the user's turn. The trimmed remainder is the remainder without the
  whitespace at its two ends: it neither starts nor ends with whitespace. The text
  \<open>!droidhello\<close> gives the prompt \<open>hello\<close>.
\<close>

theorem prefix_needs_no_separator:
  assumes "\<not> author_bot message" and "content message = BOT_PREFIX @ rest"
  shows "messageCreate E conversationHistory message =
           handle_prompt E conversationHistory (channelId message) (js_trim rest)
       \<and> (js_trim rest \<noteq> [] \<and> \<not> sendTyping_fails E \<longrightarrow>
          messageCreate E conversationHistory message =
            (conversationHistory
               (channelId message \<mapsto>
                  updatedHistory (history_get conversationHistory (channelId message))
                    (js_trim rest)
                    (fst (getResponse E (js_trim rest)
                            (history_get conversationHistory (channelId message))))),
             SendTyping
               # snd (getResponse E (js_trim rest)
                       (history_get conversationHistory (channelId message)))
               @ deliver E (fst (getResponse E (js_trim rest)
                                   (history_get conversationHistory (channelId message))))))
       \<and> (\<exists>before after. rest = before @ js_trim rest @ after
             \<and> list_all js_whitespace before \<and> list_all js_whitespace after)
       \<and> (js_trim rest \<noteq> [] \<longrightarrow>
             \<not> js_whitespace (hd (js_trim rest)) \<and> \<not> js_whitespace (last (js_trim rest)))"
proof -
  have main: "messageCreate E conversationHistory message =
           handle_prompt E conversationHistory (channelId message) (js_trim rest)"
    using assms by (simp add: messageCreate_def startsWith_append slice_prefix)
  have stored: "js_trim rest \<noteq> [] \<and> \<not> sendTyping_fails E \<longrightarrow>
          handle_prompt E conversationHistory (channelId message) (js_trim rest) =
            (conversationHistory
               (channelId message \<mapsto>
                  updatedHistory (history_get conversationHistory (channelId message))
                    (js_trim rest)
                    (fst (getResponse E (js_trim rest)
                            (history_get conversationHistory (channelId message))))),
             SendTyping
               # snd (getResponse E (js_trim rest)
                       (history_get conversationHistory (channelId message)))
               @ deliver E (fst (getResponse E (js_trim rest)
                                   (history_get conversationHistory (channelId message)))))"
    by (simp add: handle_prompt_def split_beta Let_def)
  show ?thesis
    using stored js_trim_split [of rest] js_trim_ends [of rest] by (simp add: main)
qed

theorem prefix_needs_no_separator_witness:
  "messageCreate returns_roger Map.empty (from_user ''!droidhello'') =
     ([js ''42'' \<mapsto> [content_of (js ''user'') (JStr (js ''hello'')),
                     content_of (js ''model'') (JStr (js ''Roger Roger''))]],
      [SendTyping, Fetch (api_request (js ''secret'') (js ''hello'') []),
       Reply (JStr (js ''Roger Roger''))])
   \<and> messageCreate returns_roger Map.empty (from_user ''!droid  hello there  '') =
     ([js ''42'' \<mapsto> [content_of (js ''user'') (JStr (js ''hello there'')),
                     content_of (js ''model'') (JStr (js ''Roger Roger''))]],
      [SendTyping, Fetch (api_request (js ''secret'') (js ''hello there'') []),
       Reply (JStr (js ''Roger Roger''))])"
proof -
  have nb: "\<not> author_bot (from_user raw)" for raw by simp
  have typing: "\<not> sendTyping_fails returns_roger"
    by (simp add: returns_roger_def)
  have stored: "updatedHistory [] u (JStr (js ''Roger Roger'')) =
      [content_of (js ''user'') (JStr u), content_of (js ''model'') (JStr (js ''Roger Roger''))]"
    for u
    by (simp add: updatedHistory_def MAX_HISTORY_TURNS_def)
  have replied: "deliver returns_roger (JStr (js ''Roger Roger'')) =
      [Reply (JStr (js ''Roger Roger''))]"
    by (simp add: deliver_def reply_or_catch_def outbound_short returns_roger_def)
  have raw1: "content (from_user ''!droidhello'') = BOT_PREFIX @ js ''hello''"
    by (simp add: hello_is_prefixed)
  have prompt1: "js_trim (js ''hello'') = js ''hello''" and "js ''hello'' \<noteq> []"
    by (simp_all add: trim_hello) (simp add: js_def)
  then have first: "messageCreate returns_roger Map.empty (from_user ''!droidhello'') =
     ([js ''42'' \<mapsto> [content_of (js ''user'') (JStr (js ''hello'')),
                     content_of (js ''model'') (JStr (js ''Roger Roger''))]],
      [SendTyping, Fetch (api_request (js ''secret'') (js ''hello'') []),
       Reply (JStr (js ''Roger Roger''))])"
    using prefix_needs_no_separator [OF nb raw1, of returns_roger Map.empty,
        THEN conjunct2, THEN conjunct1] typing
    by (simp add: history_get_def getResponse_returns_roger stored replied)
  have raw2: "content (from_user ''!droid  hello there  '') = BOT_PREFIX @ js ''  hello there  ''"
    by (simp add: BOT_PREFIX_def js_def)
  have prompt2: "js_trim (js ''  hello there  '') = js ''hello there''"
      and "js ''hello there'' \<noteq> []"
    by (simp_all add: js_trim_def js_whitespace_def js_def)
  then have second:
    "messageCreate returns_roger Map.empty (from_user ''!droid  hello there  '') =
     ([js ''42'' \<mapsto> [content_of (js ''user'') (JStr (js ''hello there'')),
                     content_of (js ''model'') (JStr (js ''Roger Roger''))]],
      [SendTyping, Fetch (api_request (js ''secret'') (js ''hello there'') []),
       Reply (JStr (js ''Roger Roger''))])"
    using prefix_needs_no_separator [OF nb raw2, of returns_roger Map.empty,
        THEN conjunct2, THEN conjunct1] typing
    by (simp add: history_get_def getResponse_returns_roger stored replied)
  show ?thesis using first second by simp
qed

text \<open>
  C8. A response text of more than 2000 code units is handed to \<open>reply\<close> as its first
  1980 code units followed by \<open>" yada yada"\<close>, 1990 code units in all; a text of at most
  2000 code units is handed over unchanged. So what is handed over never exceeds 2000
  code units, and it is the first thing the handler replies with.
\<close>

theorem outbound_truncation:
  "(2000 < length responseText \<longrightarrow>
      outbound responseText = take 1980 responseText @ js '' yada yada''
      \<and> length (outbound responseText) = 1990)
   \<and> (length responseText \<le> 2000 \<longrightarrow> outbound responseText = responseText)
   \<and> length (outbound responseText) \<le> 2000
   \<and> hd (deliver E (JStr responseText)) = Reply (JStr (outbound responseText))"
  by (simp add: outbound_def js_substring0_def deliver_def reply_or_catch_def)

theorem outbound_truncation_witness:
  "outbound (replicate 2500 97) = replicate 1980 97 @ js '' yada yada''
   \<and> length (outbound (replicate 2500 97)) = 1990
   \<and> outbound (js ''Roger Roger'') = js ''Roger Roger''"
  using outbound_truncation [of "replicate 2500 97"] outbound_truncation [of "js ''Roger Roger''"]
  by simp

text \<open>
  C2. Whatever messages are handled, in whatever number, starting from the empty map,
  the history stored for a channel never has more than \<open>2 * MAX_HISTORY_TURNS = 10\<close>
  entries. A single update writes the last \<open>min 10 (length h + 2)\<close> entries of the old
  history followed by the new user and model contents (a suffix, so the oldest entries
  go first and the order is kept), and this holds for any old history \<open>h\<close>, also a stale
  one read before another message was handled. A handled message either leaves the
  history of a channel as it is or replaces it by such an update.
\<close>

theorem history_bounded:
  "length (history_get (dispatch Map.empty events) k) \<le> 2 * MAX_HISTORY_TURNS
   \<and> 2 * MAX_HISTORY_TURNS = 10
   \<and> length (updatedHistory h u r) = min (2 * MAX_HISTORY_TURNS) (length h + 2)
   \<and> suffix (updatedHistory h u r)
        (h @ [content_of (js ''user'') (JStr u), content_of (js ''model'') r])
   \<and> (history_get (fst (messageCreate E st m)) k = history_get st k
      \<or> (\<exists>u' r'. history_get (fst (messageCreate E st m)) k
                    = updatedHistory (history_get st k) u' r'))"
proof -
  have "length (history_get (dispatch Map.empty events) k) \<le> 2 * MAX_HISTORY_TURNS"
    by (rule dispatch_bounded) (simp add: history_get_def)
  then show ?thesis
    using messageCreate_history [of E st m k]
    by (simp add: length_updatedHistory suffix_updatedHistory) (simp add: MAX_HISTORY_TURNS_def)
qed

theorem history_bounded_witness:
  "history_get (dispatch Map.empty six_prompts) (js ''42'') =
     exchange ''2'' @ exchange ''3'' @ exchange ''4'' @ exchange ''5'' @ exchange ''6''
   \<and> length (history_get (dispatch Map.empty six_prompts) (js ''42'')) \<le> 10"
proof -
  have "length (history_get (dispatch Map.empty six_prompts) (js ''42'')) \<le> 2 * MAX_HISTORY_TURNS
      \<and> 2 * MAX_HISTORY_TURNS = 10"
    using history_bounded [of six_prompts "js ''42''" "[]" "[]" JNull no_credential Map.empty
        "from_user ''!droid''"]
    by simp
  then show ?thesis
    by (simp add: dispatch_six_prompts)
qed

end
